theory Spec2Isabelle
  imports Complex_Main "HOL-Library.Multiset"
begin

section \<open>Knowledge-graph embedding model: scoring, training step, evaluation step\<close>

text \<open>
  A shallow embedding of \<^verbatim>\<open>codes/model.py\<close> (class \<^verbatim>\<open>KGEModel\<close>).
  Floating-point tensors are read over the exact reals: a tensor of shape
  \<^verbatim>\<open>[B, N, D]\<close> is a list of lists of lists, a score matrix \<^verbatim>\<open>[B, N]\<close> a list
  of rows. Every exception the Python raises is a value \<open>Inl e\<close> of the result type.
\<close>

subsection \<open>Errors and Python values\<close>

datatype error =
    ValueError string
  | AttributeError
  | TypeError
  | IndexError
  | RuntimeError
  | AssertionError
  | ZeroDivisionError

text \<open>
  The arguments of \<^verbatim>\<open>forward\<close> are dynamically typed. The values that reach it
  are \<^verbatim>\<open>None\<close>, a string, a tuple and a two-dimensional tensor of ids.
\<close>

datatype pyval =
    PNone
  | PStr string
  | PTuple "pyval list"
  | PLong "int list list"

type_synonym tensor2 = "real list list"
type_synonym tensor3 = "real list list list"

definition bind_r :: "error + 'a \<Rightarrow> ('a \<Rightarrow> error + 'b) \<Rightarrow> error + 'b" where
  "bind_r m f = (case m of Inl e \<Rightarrow> Inl e | Inr x \<Rightarrow> f x)"

fun mapM :: "('a \<Rightarrow> error + 'b) \<Rightarrow> 'a list \<Rightarrow> error + 'b list" where
  "mapM f [] = Inr []"
| "mapM f (x # xs) =
     (case f x of
        Inl e \<Rightarrow> Inl e
      | Inr y \<Rightarrow> (case mapM f xs of Inl e \<Rightarrow> Inl e | Inr ys \<Rightarrow> Inr (y # ys)))"

subsection \<open>The model object and its constructor\<close>

record kge_model =
  model_name :: string
  nentity :: nat
  nrelation :: nat
  ntem :: nat
  hidden_dim :: nat
  epsilon :: real
  lstm :: "tensor3 \<Rightarrow> tensor3"
  gamma :: real
  embedding_range :: real
  entity_dim :: nat
  relation_dim :: nat
  tem_dim :: nat
  entity_embedding :: tensor2
  relation_embedding :: tensor2
  tem_embedding :: tensor2
  modulus :: "real option"

definition supported_models :: "string list" where
  "supported_models =
     [''TATransE'', ''TransE'', ''TADistMult'', ''DistMult'', ''ComplEx'', ''RotatE'', ''pRotatE'']"

text \<open>
  \<^verbatim>\<open>KGEModel.__init__\<close>. Two collaborators are parameters: \<open>LSTMModel\<close> is the
  recurrent encoder's constructor (module \<^verbatim>\<open>LSTMLinear\<close>), and \<open>uniform\<close> gives the
  values that the random initialiser \<^verbatim>\<open>nn.init.uniform_\<close> draws at its first, second
  and third call for a table of the given shape and range. The division by
  \<^verbatim>\<open>hidden_dim\<close> is Python's: it raises on zero. The initialiser is called with
  the bounds \<open>- embedding_range\<close> and \<open>embedding_range\<close> and raises a
  \<^verbatim>\<open>RuntimeError\<close> when the lower bound is above the upper one, at its first call. The
  three checks come last, in the order of the source.
\<close>

definition KGEModel_init ::
  "(nat \<Rightarrow> tensor3 \<Rightarrow> tensor3) \<Rightarrow> (nat \<Rightarrow> nat \<Rightarrow> nat \<Rightarrow> real \<Rightarrow> real \<Rightarrow> tensor2) \<Rightarrow>
   string \<Rightarrow> nat \<Rightarrow> nat \<Rightarrow> nat \<Rightarrow> real \<Rightarrow> bool \<Rightarrow> bool \<Rightarrow> bool \<Rightarrow> error + kge_model" where
  "KGEModel_init LSTMModel uniform name n_entity n_relation hidden gamma_arg
       double_entity_embedding double_relation_embedding double_tem_embedding =
     (if hidden = 0 then Inl ZeroDivisionError
      else
        let eps = 2;
            rng = (gamma_arg + eps) / real hidden;
            e_dim = (if double_entity_embedding then hidden * 2 else hidden);
            r_dim = (if double_relation_embedding then hidden * 2 else hidden);
            t_dim = (if double_tem_embedding then hidden * 2 else hidden);
            self = \<lparr> model_name = name, nentity = n_entity, nrelation = n_relation, ntem = 32,
                     hidden_dim = hidden, epsilon = eps, lstm = LSTMModel hidden,
                     gamma = gamma_arg, embedding_range = rng,
                     entity_dim = e_dim, relation_dim = r_dim, tem_dim = t_dim,
                     entity_embedding = uniform 0 n_entity e_dim (- rng) rng,
                     relation_embedding = uniform 1 n_relation r_dim (- rng) rng,
                     tem_embedding = uniform 2 32 t_dim (- rng) rng,
                     modulus = (if name = ''pRotatE'' then Some (0.5 * rng) else None) \<rparr>
        in if - rng > rng then Inl RuntimeError
           else if name \<notin> set supported_models
             then Inl (ValueError (''model '' @ name @ '' not supported''))
           else if name = ''RotatE'' \<and> (\<not> double_entity_embedding \<or> double_relation_embedding)
             then Inl (ValueError ''RotatE should use --double_entity_embedding'')
           else if name = ''ComplEx'' \<and> (\<not> double_entity_embedding \<or> \<not> double_relation_embedding)
             then Inl (ValueError
                    ''ComplEx should use --double_entity_embedding and --double_relation_embedding'')
           else Inr self)"

subsection \<open>Tensor operations\<close>

text \<open>
  An elementwise operation broadcasts, axis by axis: two sizes are compatible when they
  are equal or one of them is 1, and the size-1 operand is repeated; otherwise the
  operation raises a \<^verbatim>\<open>RuntimeError\<close>. \<open>bzip\<close> is one axis of it.
\<close>

definition bzip :: "('a \<Rightarrow> 'b \<Rightarrow> error + 'c) \<Rightarrow> 'a list \<Rightarrow> 'b list \<Rightarrow> error + 'c list" where
  "bzip f xs ys =
     (if length xs = length ys then mapM (\<lambda>(x, y). f x y) (zip xs ys)
      else if length xs = 1 then mapM (f (hd xs)) ys
      else if length ys = 1 then mapM (\<lambda>x. f x (hd ys)) xs
      else Inl RuntimeError)"

definition ew1 :: "(real \<Rightarrow> real \<Rightarrow> real) \<Rightarrow> real list \<Rightarrow> real list \<Rightarrow> error + real list" where
  "ew1 f = bzip (\<lambda>a b. Inr (f a b))"

definition ew2 :: "(real \<Rightarrow> real \<Rightarrow> real) \<Rightarrow> tensor2 \<Rightarrow> tensor2 \<Rightarrow> error + tensor2" where
  "ew2 f = bzip (ew1 f)"

definition ew3 :: "(real \<Rightarrow> real \<Rightarrow> real) \<Rightarrow> tensor3 \<Rightarrow> tensor3 \<Rightarrow> error + tensor3" where
  "ew3 f = bzip (ew2 f)"

text \<open>
  The operators of an expression such as \<^verbatim>\<open>a * b + c * d\<close>: each evaluates its left
  operand, then its right one, then combines them.
\<close>

definition lift2 :: "('a \<Rightarrow> 'b \<Rightarrow> error + 'c) \<Rightarrow> error + 'a \<Rightarrow> error + 'b \<Rightarrow> error + 'c" where
  "lift2 opr x y = bind_r x (\<lambda>a. bind_r y (\<lambda>b. opr a b))"

abbreviation t_add :: "error + tensor3 \<Rightarrow> error + tensor3 \<Rightarrow> error + tensor3" where
  "t_add \<equiv> lift2 (ew3 (+))"

abbreviation t_sub :: "error + tensor3 \<Rightarrow> error + tensor3 \<Rightarrow> error + tensor3" where
  "t_sub \<equiv> lift2 (ew3 (-))"

abbreviation t_mul :: "error + tensor3 \<Rightarrow> error + tensor3 \<Rightarrow> error + tensor3" where
  "t_mul \<equiv> lift2 (ew3 (*))"

text \<open>\<^verbatim>\<open>t.sum(dim = 2)\<close> and the size of axis 2 (0 for a tensor without elements).\<close>

definition sum_dim2 :: "tensor3 \<Rightarrow> tensor2" where
  "sum_dim2 t = map (map sum_list) t"

definition size2 :: "tensor3 \<Rightarrow> nat" where
  "size2 t = (case concat t of [] \<Rightarrow> 0 | v # _ \<Rightarrow> length v)"

text \<open>
  \<^verbatim>\<open>a, b = torch.chunk(t, 2, dim=2)\<close>: the chunks have \<open>\<lceil>D / 2\<rceil>\<close> and the remaining
  components. An axis of size 1 gives a single chunk, and unpacking it into two names
  raises a \<^verbatim>\<open>ValueError\<close>.
\<close>

definition chunk2 :: "tensor3 \<Rightarrow> error + tensor3 \<times> tensor3" where
  "chunk2 t =
     (let d = size2 t; s = (d + 1) div 2
      in if d = 1 then Inl (ValueError ''not enough values to unpack (expected 2, got 1)'')
         else Inr (map (map (take s)) t, map (map (drop s)) t))"

text \<open>
  \<^verbatim>\<open>torch.stack([a, b], dim = 0).norm(dim = 0)\<close>: stacking needs equal shapes; the
  2-norm over the new axis is \<open>sqrt (a\<^sup>2 + b\<^sup>2)\<close> at every position.
\<close>

definition stack_norm :: "tensor3 \<Rightarrow> tensor3 \<Rightarrow> error + tensor3" where
  "stack_norm a b =
     (if map (map length) a = map (map length) b
      then Inr (map2 (map2 (map2 (\<lambda>x y. sqrt (x\<^sup>2 + y\<^sup>2)))) a b)
      else Inl RuntimeError)"

subsection \<open>Scoring functions\<close>

text \<open>
  \<^verbatim>\<open>DistMult(self, head, relation, tail, mode)\<close>: the product is parenthesised by the
  mode, then summed over the embedding axis.
\<close>

definition DistMult :: "kge_model \<Rightarrow> tensor3 \<Rightarrow> tensor3 \<Rightarrow> tensor3 \<Rightarrow> string \<Rightarrow> error + tensor2" where
  "DistMult self head relation tail mode =
     bind_r (if mode = ''head-batch''
             then t_mul (Inr head) (t_mul (Inr relation) (Inr tail))
             else t_mul (t_mul (Inr head) (Inr relation)) (Inr tail))
       (\<lambda>score. Inr (sum_dim2 score))"

text \<open>\<^verbatim>\<open>ComplEx(self, head, relation, tail, mode)\<close>.\<close>

definition ComplEx :: "kge_model \<Rightarrow> tensor3 \<Rightarrow> tensor3 \<Rightarrow> tensor3 \<Rightarrow> string \<Rightarrow> error + tensor2" where
  "ComplEx self head relation tail mode =
     bind_r (chunk2 head) (\<lambda>(re_head, im_head).
     bind_r (chunk2 relation) (\<lambda>(re_relation, im_relation).
     bind_r (chunk2 tail) (\<lambda>(re_tail, im_tail).
     bind_r
       (if mode = ''head-batch''
        then
          (let re_score = t_add (t_mul (Inr re_relation) (Inr re_tail))
                                (t_mul (Inr im_relation) (Inr im_tail));
               im_score = t_sub (t_mul (Inr re_relation) (Inr im_tail))
                                (t_mul (Inr im_relation) (Inr re_tail))
           in t_add (t_mul (Inr re_head) re_score) (t_mul (Inr im_head) im_score))
        else
          (let re_score = t_sub (t_mul (Inr re_head) (Inr re_relation))
                                (t_mul (Inr im_head) (Inr im_relation));
               im_score = t_add (t_mul (Inr re_head) (Inr im_relation))
                                (t_mul (Inr im_head) (Inr re_relation))
           in t_add (t_mul re_score (Inr re_tail)) (t_mul im_score (Inr im_tail))))
       (\<lambda>score. Inr (sum_dim2 score)))))"

text \<open>
  \<^verbatim>\<open>RotatE(self, head, relation, tail, mode)\<close>. The constant \<^verbatim>\<open>pi\<close> is the decimal
  literal of the source, a rational number. The division of a tensor by a float raises
  nothing; with a zero divisor the source gets infinities and NaNs, which the reals do
  not have, so the model is the source only for a non-zero \<^verbatim>\<open>embedding_range\<close>.
\<close>

definition RotatE_pi :: real where
  "RotatE_pi = 3.14159265358979323846"

definition RotatE :: "kge_model \<Rightarrow> tensor3 \<Rightarrow> tensor3 \<Rightarrow> tensor3 \<Rightarrow> string \<Rightarrow> error + tensor2" where
  "RotatE self head relation tail mode =
     bind_r (chunk2 head) (\<lambda>(re_head, im_head).
     bind_r (chunk2 tail) (\<lambda>(re_tail, im_tail).
     let phase_relation = map (map (map (\<lambda>x. x / (embedding_range self / RotatE_pi)))) relation;
         re_relation = map (map (map cos)) phase_relation;
         im_relation = map (map (map sin)) phase_relation
     in
     bind_r
       (if mode = ''head-batch''
        then
          (let re_score = t_add (t_mul (Inr re_relation) (Inr re_tail))
                                (t_mul (Inr im_relation) (Inr im_tail));
               im_score = t_sub (t_mul (Inr re_relation) (Inr im_tail))
                                (t_mul (Inr im_relation) (Inr re_tail));
               re_score = t_sub re_score (Inr re_head);
               im_score = t_sub im_score (Inr im_head)
           in lift2 stack_norm re_score im_score)
        else
          (let re_score = t_sub (t_mul (Inr re_head) (Inr re_relation))
                                (t_mul (Inr im_head) (Inr im_relation));
               im_score = t_add (t_mul (Inr re_head) (Inr im_relation))
                                (t_mul (Inr im_head) (Inr re_relation));
               re_score = t_sub re_score (Inr re_tail);
               im_score = t_sub im_score (Inr im_tail)
           in lift2 stack_norm re_score im_score))
       (\<lambda>score. Inr (map (map (\<lambda>s. gamma self - s)) (sum_dim2 score)))))"

text \<open>
  \<^verbatim>\<open>TransE\<close> and \<^verbatim>\<open>pRotatE\<close>; the latter has its own decimal constant, and reads the
  attribute \<^verbatim>\<open>modulus\<close>, which only a pRotatE model has.
\<close>

definition TransE :: "kge_model \<Rightarrow> tensor3 \<Rightarrow> tensor3 \<Rightarrow> tensor3 \<Rightarrow> string \<Rightarrow> error + tensor2" where
  "TransE self head relation tail mode =
     bind_r (if mode = ''head-batch''
             then t_add (Inr head) (t_sub (Inr relation) (Inr tail))
             else t_sub (t_add (Inr head) (Inr relation)) (Inr tail))
       (\<lambda>score. Inr (map (map (\<lambda>v. gamma self - sum_list (map abs v))) score))"

definition pRotatE_pi :: real where
  "pRotatE_pi = 3.14159262358979323846"

definition pRotatE :: "kge_model \<Rightarrow> tensor3 \<Rightarrow> tensor3 \<Rightarrow> tensor3 \<Rightarrow> string \<Rightarrow> error + tensor2" where
  "pRotatE self head relation tail mode =
     (let phase = map (map (map (\<lambda>x. x / (embedding_range self / pRotatE_pi))));
          phase_head = phase head;
          phase_relation = phase relation;
          phase_tail = phase tail
      in bind_r (if mode = ''head-batch''
                 then t_add (Inr phase_head) (t_sub (Inr phase_relation) (Inr phase_tail))
                 else t_sub (t_add (Inr phase_head) (Inr phase_relation)) (Inr phase_tail))
           (\<lambda>score.
              case modulus self of
                None \<Rightarrow> Inl AttributeError
              | Some m \<Rightarrow>
                  bind_r (ew2 (*) (sum_dim2 (map (map (map (\<lambda>x. \<bar>sin x\<bar>))) score)) [[m]])
                    (\<lambda>sm. Inr (map (map (\<lambda>s. gamma self - s)) sm))))"

text \<open>
  The temporal variants. \<^verbatim>\<open>get_rseq\<close> joins the relation and the time-token
  embeddings along the sequence axis (\<^verbatim>\<open>torch.cat\<close> needs the other sizes equal), runs
  the recurrent encoder and takes \<^verbatim>\<open>hidden_tem[0, :, :]\<close>. The time context is
  \<^verbatim>\<open>None\<close> when \<^verbatim>\<open>forward\<close> was given no row of tokens.
\<close>

definition cat1 :: "tensor3 \<Rightarrow> tensor3 \<Rightarrow> error + tensor3" where
  "cat1 a b =
     (if length a = length b \<and> list_all (\<lambda>v. length v = size2 a) (concat (a @ b))
      then Inr (map2 (@) a b)
      else Inl RuntimeError)"

definition unsqueeze1 :: "tensor2 \<Rightarrow> tensor3" where
  "unsqueeze1 t = map (\<lambda>row. [row]) t"

definition get_rseq :: "kge_model \<Rightarrow> tensor3 \<Rightarrow> tensor3 option \<Rightarrow> error + tensor2" where
  "get_rseq self pos_r_e pos_tem_e =
     (case pos_tem_e of
        None \<Rightarrow> Inl AttributeError
      | Some tem_e \<Rightarrow>
          bind_r (cat1 pos_r_e tem_e)
            (\<lambda>pos_seq_e.
               case lstm self pos_seq_e of
                 [] \<Rightarrow> Inl IndexError
               | hidden_tem # _ \<Rightarrow> Inr hidden_tem))"

definition TATransE ::
  "kge_model \<Rightarrow> tensor3 \<Rightarrow> tensor3 \<Rightarrow> tensor3 option \<Rightarrow> tensor3 \<Rightarrow> string \<Rightarrow> error + tensor2" where
  "TATransE self head relation tem tail mode =
     bind_r (get_rseq self relation tem)
       (\<lambda>rseq.
          let rseq = unsqueeze1 rseq
          in bind_r (if mode = ''head-batch''
                     then t_add (Inr head) (t_sub (Inr rseq) (Inr tail))
                     else t_sub (t_add (Inr head) (Inr rseq)) (Inr tail))
               (\<lambda>score. Inr (map (map (\<lambda>v. gamma self - sum_list (map abs v))) score)))"

definition TADistMult ::
  "kge_model \<Rightarrow> tensor3 \<Rightarrow> tensor3 \<Rightarrow> tensor3 option \<Rightarrow> tensor3 \<Rightarrow> string \<Rightarrow> error + tensor2" where
  "TADistMult self head relation tem tail mode =
     bind_r (get_rseq self relation tem)
       (\<lambda>rseq.
          let rseq = unsqueeze1 rseq
          in bind_r (if mode = ''head-batch''
                     then t_mul (Inr head) (t_mul (Inr rseq) (Inr tail))
                     else t_mul (t_mul (Inr head) (Inr rseq)) (Inr tail))
               (\<lambda>score. Inr (sum_dim2 score)))"

subsection \<open>The forward pass\<close>

text \<open>
  What the first use of each argument needs: \<^verbatim>\<open>x.size(0)\<close> raises an
  \<^verbatim>\<open>AttributeError\<close> on \<^verbatim>\<open>None\<close>, a string or a tuple, and \<^verbatim>\<open>x[:, c]\<close> a
  \<^verbatim>\<open>TypeError\<close>; on a tensor, a column that does not exist is an \<^verbatim>\<open>IndexError\<close>, and so
  is an id outside the table in \<^verbatim>\<open>index_select\<close>.
\<close>

definition size_of :: "pyval \<Rightarrow> error + int list list" where
  "size_of x = (case x of PLong t \<Rightarrow> Inr t | _ \<Rightarrow> Inl AttributeError)"

definition subscript_of :: "pyval \<Rightarrow> error + int list list" where
  "subscript_of x = (case x of PLong t \<Rightarrow> Inr t | _ \<Rightarrow> Inl TypeError)"

definition column :: "int list list \<Rightarrow> nat \<Rightarrow> error + int list" where
  "column t c =
     (if list_all (\<lambda>row. c < length row) t then Inr (map (\<lambda>row. row ! c) t) else Inl IndexError)"

definition index_select :: "tensor2 \<Rightarrow> int list \<Rightarrow> error + tensor2" where
  "index_select table index =
     (if list_all (\<lambda>i. 0 \<le> i \<and> i < int (length table)) index
      then Inr (map (\<lambda>i. table ! nat i) index)
      else Inl IndexError)"

text \<open>
  The candidates of a batch, \<^verbatim>\<open>index_select(table, 0, part.view(-1)).view(B, N, -1)\<close>:
  the ids are checked first; the view cannot infer its last size for a tensor without
  elements.
\<close>

definition select_candidates :: "tensor2 \<Rightarrow> int list list \<Rightarrow> error + tensor3" where
  "select_candidates table part =
     bind_r (index_select table (concat part))
       (\<lambda>_. if concat part = [] then Inl RuntimeError else mapM (index_select table) part)"

text \<open>The loop that gathers the time-token embeddings, one row of tokens at a time.\<close>

definition select_tem :: "tensor2 \<Rightarrow> int list list \<Rightarrow> error + tensor3 option" where
  "select_tem table sample_tem =
     (if sample_tem = [] then Inr None
      else bind_r (mapM (index_select table) sample_tem) (\<lambda>tem. Inr (Some tem)))"

definition forward :: "kge_model \<Rightarrow> pyval \<Rightarrow> pyval \<Rightarrow> pyval \<Rightarrow> string \<Rightarrow> error + tensor2" where
  "forward self sample_triple sample_tem negative_sample mode =
     bind_r
       (if mode = ''single'' then
          bind_r (size_of sample_triple) (\<lambda>triple.
          bind_r (bind_r (column triple 0) (index_select (entity_embedding self))) (\<lambda>head.
          bind_r (bind_r (column triple 1) (index_select (relation_embedding self))) (\<lambda>relation.
          bind_r (bind_r (size_of sample_tem) (select_tem (tem_embedding self))) (\<lambda>tem.
          bind_r (bind_r (column triple 2) (index_select (entity_embedding self))) (\<lambda>tail.
          Inr (unsqueeze1 head, unsqueeze1 relation, tem, unsqueeze1 tail))))))
        else if mode = ''head-batch'' then
          bind_r (size_of negative_sample) (\<lambda>head_part.
          bind_r (select_candidates (entity_embedding self) head_part) (\<lambda>head.
          bind_r (subscript_of sample_triple) (\<lambda>tail_part.
          bind_r (bind_r (column tail_part 1) (index_select (relation_embedding self))) (\<lambda>relation.
          bind_r (bind_r (size_of sample_tem) (select_tem (tem_embedding self))) (\<lambda>tem.
          bind_r (bind_r (column tail_part 2) (index_select (entity_embedding self))) (\<lambda>tail.
          Inr (head, unsqueeze1 relation, tem, unsqueeze1 tail)))))))
        else if mode = ''tail-batch'' then
          bind_r (size_of negative_sample) (\<lambda>tail_part.
          bind_r (subscript_of sample_triple) (\<lambda>head_part.
          bind_r (bind_r (column head_part 0) (index_select (entity_embedding self))) (\<lambda>head.
          bind_r (bind_r (column head_part 1) (index_select (relation_embedding self))) (\<lambda>relation.
          bind_r (bind_r (size_of sample_tem) (select_tem (tem_embedding self))) (\<lambda>tem.
          bind_r (select_candidates (entity_embedding self) tail_part) (\<lambda>tail.
          Inr (unsqueeze1 head, unsqueeze1 relation, tem, tail)))))))
        else Inl (ValueError (''mode '' @ mode @ '' not supported'')))
       (\<lambda>(head, relation, tem, tail).
          if model_name self = ''TATransE'' then TATransE self head relation tem tail mode
          else if model_name self = ''TADistMult'' then TADistMult self head relation tem tail mode
          else if model_name self \<in> set [''TransE'', ''DistMult'', ''ComplEx'', ''RotatE'', ''pRotatE'']
            then Inl TypeError
          else Inl (ValueError (''model '' @ model_name self @ '' not supported'')))"

subsection \<open>The training step\<close>

record train_args =
  negative_adversarial_sampling :: bool
  adversarial_temperature :: real
  uni_weight :: bool
  regularization :: real

record train_log =
  regularization_log :: "real option"
  positive_sample_loss :: real
  negative_sample_loss :: real
  loss :: real

text \<open>
  The functions of \<^verbatim>\<open>torch.nn.functional\<close> and the reductions, on values. A mean over
  no element and a quotient by a zero sum of weights are NaN in the source; the reals
  have no NaN, so the model is the source only on non-empty batches and rows and for a
  non-zero sum of weights. \<^verbatim>\<open>detach\<close> keeps the values.
\<close>

definition logsigmoid :: "real \<Rightarrow> real" where
  "logsigmoid x = ln (1 / (1 + exp (- x)))"

definition softmax :: "real list \<Rightarrow> real list" where
  "softmax row = map (\<lambda>x. exp x / sum_list (map exp row)) row"

definition mean :: "real list \<Rightarrow> real" where
  "mean xs = sum_list xs / real (length xs)"

definition detach :: "real list \<Rightarrow> real list" where
  "detach xs = xs"

definition norm_p3 :: "real list \<Rightarrow> real" where
  "norm_p3 xs = root 3 (sum_list (map (\<lambda>x. \<bar>x\<bar> ^ 3) xs))"

text \<open>The reduction of the negative scores to one number per example (lines 372 to 377).\<close>

definition negative_reduce :: "train_args \<Rightarrow> tensor2 \<Rightarrow> real list" where
  "negative_reduce args negative_score =
     (if negative_adversarial_sampling args
      then map (\<lambda>row. sum_list (map2 (*)
                          (detach (softmax (map (\<lambda>s. s * adversarial_temperature args) row)))
                          (map (\<lambda>s. logsigmoid (- s)) row)))
             negative_score
      else map (\<lambda>row. mean (map (\<lambda>s. logsigmoid (- s)) row)) negative_score)"

text \<open>
  The regulariser of lines 394 to 397: \<^verbatim>\<open>norm(p = 3)\<close> of a table runs over all its
  elements, and the second \<^verbatim>\<open>norm(p = 3)\<close> over the one number the first returns.
\<close>

definition l3_regularization :: "kge_model \<Rightarrow> real" where
  "l3_regularization model =
     norm_p3 (concat (entity_embedding model)) ^ 3
     + norm_p3 [norm_p3 (concat (relation_embedding model))] ^ 3"

text \<open>
  \<^verbatim>\<open>squeeze(dim = 1)\<close> removes the second axis when its size is 1 and leaves the
  tensor as it is otherwise; the mean over all elements and the sum of the product with
  the weights are defined on both results (the weights broadcast against the last axis).
\<close>

datatype squeezed = Rank1 "real list" | Rank2 tensor2

definition squeeze_dim1 :: "tensor2 \<Rightarrow> squeezed" where
  "squeeze_dim1 t = (if list_all (\<lambda>row. length row = 1) t then Rank1 (map hd t) else Rank2 t)"

definition mean_all :: "squeezed \<Rightarrow> real" where
  "mean_all s = (case s of Rank1 v \<Rightarrow> mean v | Rank2 t \<Rightarrow> mean (concat t))"

definition weighted_sum :: "real list \<Rightarrow> squeezed \<Rightarrow> error + real" where
  "weighted_sum w s =
     (case s of
        Rank1 v \<Rightarrow> bind_r (ew1 (*) w v) (\<lambda>p. Inr (sum_list p))
      | Rank2 t \<Rightarrow> bind_r (ew2 (*) [w] t) (\<lambda>p. Inr (sum_list (concat p))))"

text \<open>
  Lines 372 to 388, from the two score tensors on: the two sample losses, by the
  averaging policy of \<^verbatim>\<open>uni_weight\<close>.
\<close>

definition train_losses :: "train_args \<Rightarrow> real list \<Rightarrow> tensor2 \<Rightarrow> tensor2 \<Rightarrow> error + real \<times> real" where
  "train_losses args subsampling_weight negative_score positive_score =
     (let negative_score = negative_reduce args negative_score;
          positive_score = squeeze_dim1 (map (map logsigmoid) positive_score)
      in if uni_weight args
         then Inr (mean_all positive_score, mean negative_score)
         else
           bind_r (weighted_sum subsampling_weight positive_score) (\<lambda>wp.
           bind_r (weighted_sum subsampling_weight (Rank1 negative_score)) (\<lambda>wn.
           Inr (- wp / sum_list subsampling_weight, - wn / sum_list subsampling_weight))))"

text \<open>
  \<^verbatim>\<open>train_step\<close>: a batch of the sampler is the positive triples, their time tokens,
  the negative candidates, the subsampling weights and the mode. The backward pass and
  the optimizer's step change the tables after the losses are computed; the returned
  log is that of the tables the step started with.
\<close>

type_synonym train_batch = "int list list \<times> int list list \<times> int list list \<times> real list \<times> string"

definition train_step :: "kge_model \<Rightarrow> train_args \<Rightarrow> train_batch \<Rightarrow> error + train_log" where
  "train_step model args batch =
     (case batch of
        (positive_sample_triple, positive_sample_tem, negative_sample, subsampling_weight, mode) \<Rightarrow>
          bind_r (forward model (PLong positive_sample_triple) (PLong positive_sample_tem)
                    (PLong negative_sample) mode) (\<lambda>negative_score.
          bind_r (forward model (PLong positive_sample_triple) (PLong positive_sample_tem)
                    PNone ''single'') (\<lambda>positive_score.
          bind_r (train_losses args subsampling_weight negative_score positive_score)
            (\<lambda>(positive_loss, negative_loss).
               let loss0 = (positive_loss + negative_loss) / 2
               in if regularization args \<noteq> 0
                  then
                    (let reg = regularization args * l3_regularization model
                     in Inr \<lparr> regularization_log = Some reg, positive_sample_loss = positive_loss,
                              negative_sample_loss = negative_loss, loss = loss0 + reg \<rparr>)
                  else Inr \<lparr> regularization_log = None, positive_sample_loss = positive_loss,
                             negative_sample_loss = negative_loss, loss = loss0 \<rparr>))))"

text \<open>
  Line 374 again, with the derivative along: a number is a pair of its value and its
  tangent with respect to a parameter of the model, each operation propagates both, and
  \<^verbatim>\<open>detach\<close> keeps the value and cuts the tangent.
\<close>

type_synonym dual = "real \<times> real"

definition d_const :: "real \<Rightarrow> dual" where
  "d_const c = (c, 0)"

definition d_add :: "dual \<Rightarrow> dual \<Rightarrow> dual" where
  "d_add a b = (fst a + fst b, snd a + snd b)"

definition d_neg :: "dual \<Rightarrow> dual" where
  "d_neg a = (- fst a, - snd a)"

definition d_mul :: "dual \<Rightarrow> dual \<Rightarrow> dual" where
  "d_mul a b = (fst a * fst b, snd a * fst b + fst a * snd b)"

definition d_div :: "dual \<Rightarrow> dual \<Rightarrow> dual" where
  "d_div a b = (fst a / fst b, (snd a * fst b - fst a * snd b) / (fst b)\<^sup>2)"

definition d_exp :: "dual \<Rightarrow> dual" where
  "d_exp a = (exp (fst a), snd a * exp (fst a))"

definition d_ln :: "dual \<Rightarrow> dual" where
  "d_ln a = (ln (fst a), snd a / fst a)"

definition d_sum :: "dual list \<Rightarrow> dual" where
  "d_sum xs = foldr d_add xs (d_const 0)"

definition d_detach :: "dual \<Rightarrow> dual" where
  "d_detach a = (fst a, 0)"

definition d_logsigmoid :: "dual \<Rightarrow> dual" where
  "d_logsigmoid x = d_ln (d_div (d_const 1) (d_add (d_const 1) (d_exp (d_neg x))))"

definition d_softmax :: "dual list \<Rightarrow> dual list" where
  "d_softmax row = map (\<lambda>x. d_div (d_exp x) (d_sum (map d_exp row))) row"

definition d_mean :: "dual list \<Rightarrow> dual" where
  "d_mean xs = d_div (d_sum xs) (d_const (real (length xs)))"

definition negative_reduce_grad :: "train_args \<Rightarrow> dual list list \<Rightarrow> dual list" where
  "negative_reduce_grad args negative_score =
     (if negative_adversarial_sampling args
      then map (\<lambda>row. d_sum (map2 d_mul
                          (map d_detach (d_softmax
                             (map (\<lambda>s. d_mul s (d_const (adversarial_temperature args))) row)))
                          (map (\<lambda>s. d_logsigmoid (d_neg s)) row)))
             negative_score
      else map (\<lambda>row. d_mean (map (\<lambda>s. d_logsigmoid (d_neg s)) row)) negative_score)"

subsection \<open>The evaluation step\<close>

record metrics =
  MRR :: real
  MR :: real
  HITS1 :: real
  HITS3 :: real
  HITS10 :: real

type_synonym test_batch = "int list list \<times> int list list \<times> tensor2 \<times> string"

text \<open>\<^verbatim>\<open>score += filter_bias\<close>: an in-place sum keeps the shape of \<^verbatim>\<open>score\<close>.\<close>

definition bzip_into :: "('a \<Rightarrow> 'b \<Rightarrow> error + 'a) \<Rightarrow> 'a list \<Rightarrow> 'b list \<Rightarrow> error + 'a list" where
  "bzip_into f xs ys =
     (if length xs = length ys then mapM (\<lambda>(x, y). f x y) (zip xs ys)
      else if length ys = 1 then mapM (\<lambda>x. f x (hd ys)) xs
      else Inl RuntimeError)"

definition iadd2 :: "tensor2 \<Rightarrow> tensor2 \<Rightarrow> error + tensor2" where
  "iadd2 score bias = bzip_into (bzip_into (\<lambda>a b. Inr (a + b))) score bias"

text \<open>
  Lines 469 and 470. The call passes two positional arguments, the pair of the two
  samples and the mode; \<^verbatim>\<open>negative_sample\<close> and \<^verbatim>\<open>mode\<close> keep their defaults.
\<close>

definition test_step_score :: "kge_model \<Rightarrow> test_batch \<Rightarrow> error + tensor2" where
  "test_step_score model batch =
     (case batch of
        (positive_sample, negative_sample, filter_bias, mode) \<Rightarrow>
          bind_r (forward model (PTuple [PLong positive_sample, PLong negative_sample])
                    (PStr mode) PNone ''single'')
            (\<lambda>score. iadd2 score filter_bias))"

text \<open>
  Lines 472 to 495, from the score on. \<open>torch_argsort\<close> is the library's
  \<^verbatim>\<open>torch.argsort(row, descending=True)\<close> on one row, a parameter: the call does not
  ask for a stable sort, and the library promises only some permutation of the positions
  that lists the scores in descending order (\<open>argsort_descending\<close> below).
\<close>

definition log_entry :: "nat \<Rightarrow> metrics" where
  "log_entry ranking =
     \<lparr> MRR = 1 / real ranking,
       MR = real ranking,
       HITS1 = (if ranking \<le> 1 then 1 else 0),
       HITS3 = (if ranking \<le> 3 then 1 else 0),
       HITS10 = (if ranking \<le> 10 then 1 else 0) \<rparr>"

definition nonzero_eq :: "nat list \<Rightarrow> int \<Rightarrow> nat list" where
  "nonzero_eq row p = filter (\<lambda>j. int (row ! j) = p) [0..<length row]"

definition rank_example :: "nat list list \<Rightarrow> int list \<Rightarrow> nat \<Rightarrow> error + metrics" where
  "rank_example argsort positive_arg i =
     (if i < length argsort
      then
        (let ranking = nonzero_eq (argsort ! i) (positive_arg ! i)
         in if length ranking = 1 then Inr (log_entry (1 + hd ranking)) else Inl AssertionError)
      else Inl IndexError)"

definition test_step_rank ::
  "(real list \<Rightarrow> nat list) \<Rightarrow> int list list \<Rightarrow> string \<Rightarrow> tensor2 \<Rightarrow> error + metrics list" where
  "test_step_rank torch_argsort positive_sample mode score =
     (let batch_size = length positive_sample;
          argsort = map torch_argsort score
      in bind_r
           (if mode = ''head-batch'' then column positive_sample 0
            else if mode = ''tail-batch'' then column positive_sample 2
            else Inl (ValueError (''mode '' @ mode @ '' not supported'')))
           (\<lambda>positive_arg. mapM (rank_example argsort positive_arg) [0..<batch_size]))"

definition aggregate :: "metrics list \<Rightarrow> error + metrics" where
  "aggregate logs =
     (if logs = [] then Inl IndexError
      else Inr \<lparr> MRR = sum_list (map MRR logs) / real (length logs),
                 MR = sum_list (map MR logs) / real (length logs),
                 HITS1 = sum_list (map HITS1 logs) / real (length logs),
                 HITS3 = sum_list (map HITS3 logs) / real (length logs),
                 HITS10 = sum_list (map HITS10 logs) / real (length logs) \<rparr>)"

text \<open>
  The body of the loop for one batch (lines 461 to 495), and the whole step over the
  batches of the head loader and then those of the tail loader (the loaders are the
  collaborator \<^verbatim>\<open>TestDataset\<close>'s); without any example, \<^verbatim>\<open>logs[0]\<close> raises.
\<close>

definition test_step_batch ::
  "kge_model \<Rightarrow> (real list \<Rightarrow> nat list) \<Rightarrow> test_batch \<Rightarrow> error + metrics list" where
  "test_step_batch model torch_argsort batch =
     (case batch of
        (positive_sample, negative_sample, filter_bias, mode) \<Rightarrow>
          bind_r (test_step_score model batch)
            (test_step_rank torch_argsort positive_sample mode))"

definition test_step ::
  "kge_model \<Rightarrow> (real list \<Rightarrow> nat list) \<Rightarrow> test_batch list \<Rightarrow> test_batch list \<Rightarrow> error + metrics" where
  "test_step model torch_argsort test_dataloader_head test_dataloader_tail =
     bind_r
       (mapM (test_step_batch model torch_argsort) (test_dataloader_head @ test_dataloader_tail))
       (\<lambda>logs. aggregate (concat logs))"







subsection \<open>Example objects\<close>

text \<open>
  A RotatE model with \<^verbatim>\<open>hidden_dim = 1\<close> and \<^verbatim>\<open>gamma = 2\<close>, hence with
  \<^verbatim>\<open>embedding_range = 4\<close>, and two evaluation batches of one triple over three entities.
\<close>

definition example_rotate :: kge_model where
  "example_rotate =
     \<lparr> model_name = ''RotatE'', nentity = 3, nrelation = 1, ntem = 32, hidden_dim = 1,
       epsilon = 2, lstm = (\<lambda>x. x), gamma = 2, embedding_range = 4,
       entity_dim = 2, relation_dim = 1, tem_dim = 1,
       entity_embedding = [[1, 0], [1, 0], [0, 1]], relation_embedding = [[0]],
       tem_embedding = replicate 32 [0], modulus = None \<rparr>"


definition example_tail_batch :: test_batch where
  "example_tail_batch = ([[2, 0, 1]], [[0, 1, 2]], [[0, 0, 0]], ''tail-batch'')"

text \<open>
  A TADistMult model with \<^verbatim>\<open>hidden_dim = 1\<close> and \<^verbatim>\<open>gamma = 2\<close>. Its encoder stands for
  the recurrent encoder of \<^verbatim>\<open>LSTMLinear\<close>, which is not among the sources: it returns, as
  its one layer, the last vector of every sequence. The head of the training triple is
  the entity 0, whose embedding is 0, so every score of the batch is 0 whatever the
  encoder returns.
\<close>

definition example_lstm :: "tensor3 \<Rightarrow> tensor3" where
  "example_lstm pos_seq_e = [map last pos_seq_e]"

definition example_ta :: kge_model where
  "example_ta =
     \<lparr> model_name = ''TADistMult'', nentity = 2, nrelation = 1, ntem = 32, hidden_dim = 1,
       epsilon = 2, lstm = example_lstm, gamma = 2, embedding_range = 4,
       entity_dim = 1, relation_dim = 1, tem_dim = 1,
       entity_embedding = [[0], [1]], relation_embedding = [[2]],
       tem_embedding = replicate 32 [1], modulus = None \<rparr>"

definition example_train_batch :: train_batch where
  "example_train_batch = ([[0, 0, 1]], [[3, 7]], [[1, 0]], [1], ''tail-batch'')"

definition example_args :: "bool \<Rightarrow> real \<Rightarrow> train_args" where
  "example_args uni reg =
     \<lparr> negative_adversarial_sampling = False, adversarial_temperature = 1,
       uni_weight = uni, regularization = reg \<rparr>"

subsection \<open>Expressions of elementwise operations on vectors\<close>

text \<open>
  For the proofs about the parenthesisations: an expression over vectors, its value
  under broadcasting, its leaves, and its value at one position when every leaf is
  read as broadcast to the size \<open>n\<close>.
\<close>

datatype vexp = Leaf "real list" | Node "real \<Rightarrow> real \<Rightarrow> real" vexp vexp

fun eval_v :: "vexp \<Rightarrow> error + real list" where
  "eval_v (Leaf v) = Inr v"
| "eval_v (Node f a b) = lift2 (ew1 f) (eval_v a) (eval_v b)"

fun leaves :: "vexp \<Rightarrow> real list set" where
  "leaves (Leaf v) = {v}"
| "leaves (Node f a b) = leaves a \<union> leaves b"

fun at_v :: "nat \<Rightarrow> nat \<Rightarrow> vexp \<Rightarrow> real" where
  "at_v n k (Leaf v) = v ! (if length v = n then k else 0)"
| "at_v n k (Node f a b) = f (at_v n k a) (at_v n k b)"

definition fits :: "nat \<Rightarrow> real list \<Rightarrow> bool" where
  "fits n v \<longleftrightarrow> length v = n \<or> length v = 1"

definition wrap3 :: "error + real list \<Rightarrow> error + tensor3" where
  "wrap3 x = (case x of Inl e \<Rightarrow> Inl e | Inr z \<Rightarrow> Inr [[z]])"

section \<open>Properties\<close>

subsection \<open>Results that never fail\<close>

lemma mapM_Inr: "mapM (\<lambda>x. Inr (g x)) xs = Inr (map g xs)"
  by (induction xs) auto


lemma mapM_map_Inr_all:
  "(\<And>x. x \<in> set xs \<Longrightarrow> f (h x) = Inr (g x)) \<Longrightarrow> mapM f (map h xs) = Inr (map g xs)"
  by (induction xs) auto

lemma ew1_eq:
  "ew1 f xs ys =
     (if length xs = length ys then Inr (map2 f xs ys)
      else if length xs = 1 then Inr (map (f (hd xs)) ys)
      else if length ys = 1 then Inr (map (\<lambda>x. f x (hd ys)) xs)
      else Inl RuntimeError)"
  unfolding ew1_def bzip_def by (simp add: mapM_Inr case_prod_unfold)

subsection \<open>Construction errors\<close>

text \<open>
  Claim C9. For a configuration in the domain of the constructor, a positive
  \<^verbatim>\<open>hidden_dim\<close> and a \<^verbatim>\<open>gamma\<close> of at least \<open>-2\<close> (so that the range of the random
  initialiser is not negative), the constructor raises a \<^verbatim>\<open>ValueError\<close> exactly when the
  model name is none of the seven supported ones, or it is RotatE without double-width
  entity embeddings or with double-width relation embeddings, or it is ComplEx without
  both widths doubled; it raises nothing else, and in every other case it returns the
  model. The violation is reported by the constructor: no model object exists on which
  \<^verbatim>\<open>forward\<close> could run.
\<close>

theorem init_raises_iff_config_violation:
  assumes "0 < hidden" and "- 2 \<le> gamma_arg"
  shows "((\<exists>msg. KGEModel_init LSTMModel uniform name n_entity n_relation hidden gamma_arg
               dee dre dte = Inl (ValueError msg))
          \<longleftrightarrow> (name \<notin> {''TATransE'', ''TransE'', ''TADistMult'', ''DistMult'', ''ComplEx'',
                          ''RotatE'', ''pRotatE''}
               \<or> (name = ''RotatE'' \<and> (\<not> dee \<or> dre))
               \<or> (name = ''ComplEx'' \<and> (\<not> dee \<or> \<not> dre))))
       \<and> ((\<exists>self. KGEModel_init LSTMModel uniform name n_entity n_relation hidden gamma_arg
               dee dre dte = Inr self)
          \<longleftrightarrow> \<not> (name \<notin> {''TATransE'', ''TransE'', ''TADistMult'', ''DistMult'', ''ComplEx'',
                          ''RotatE'', ''pRotatE''}
               \<or> (name = ''RotatE'' \<and> (\<not> dee \<or> dre))
               \<or> (name = ''ComplEx'' \<and> (\<not> dee \<or> \<not> dre))))"
proof -
  have "0 \<le> (gamma_arg + 2) / real hidden"
    using assms by simp
  then have rng: "\<not> - ((gamma_arg + 2) / real hidden) > (gamma_arg + 2) / real hidden"
    by linarith
  show ?thesis
    using assms(1) rng unfolding KGEModel_init_def Let_def supported_models_def by auto
qed

theorem init_raises_iff_config_violation_witness:
  "(0::nat) < 4 \<and> - 2 \<le> (12::real)
   \<and> (\<exists>msg. KGEModel_init (\<lambda>h x. x) (\<lambda>c n d a b. replicate n (replicate d 0)) ''RotatE'' 3 2 4 12
          False False False = Inl (ValueError msg))
   \<and> (\<exists>self. KGEModel_init (\<lambda>h x. x) (\<lambda>c n d a b. replicate n (replicate d 0)) ''RotatE'' 3 2 4 12
          True False False = Inr self)"
proof -
  have h: "(0::nat) < 4" and g: "- 2 \<le> (12::real)" by simp_all
  show ?thesis
    using h g
      init_raises_iff_config_violation [OF h g, of "\<lambda>h x. x"
        "\<lambda>c n d a b. replicate n (replicate d 0)" "''RotatE''" 3 2 False False False]
      init_raises_iff_config_violation [OF h g, of "\<lambda>h x. x"
        "\<lambda>c n d a b. replicate n (replicate d 0)" "''RotatE''" 3 2 True False False]
    by simp
qed

subsection \<open>The score of an evaluation batch\<close>

text \<open>
  Claim C1 says that the evaluation step scores a batch by the forward function applied
  to the positive triples, their time context, the candidates and the mode, and adds
  \<^verbatim>\<open>filter_bias\<close>. The code does not: its call binds the pair of the two samples to
  \<^verbatim>\<open>sample_triple\<close> and the mode to \<^verbatim>\<open>sample_tem\<close>, the mode of the forward function
  stays \<^verbatim>\<open>'single'\<close>, and the first statement of that branch asks a tuple for its size.
  For every model and every batch the scoring raises an \<^verbatim>\<open>AttributeError\<close>, and so does
  the whole step as soon as the head loader has a batch.
\<close>

theorem test_step_score_raises:
  "test_step_score model (positive_sample, negative_sample, filter_bias, mode) = Inl AttributeError
   \<and> test_step model torch_argsort
         ((positive_sample, negative_sample, filter_bias, mode) # head_batches) tail_batches
       = Inl AttributeError"
  by (simp add: test_step_def test_step_batch_def test_step_score_def forward_def size_of_def
        bind_r_def)

subsection \<open>Ranking\<close>















subsection \<open>Metrics\<close>

lemma mapM_first_Inl: "f x = Inl e \<Longrightarrow> mapM f (x # xs) = Inl e"
  by simp

text \<open>
  Claim C8 says that the evaluation step returns, for every example, the reciprocal
  rank, the rank and the three indicators, and their plain means over the examples of
  both directions. Lines 482 to 504 are written to do so, but the step of the source
  never gets there: the scoring call of its first batch raises (the defect of claim
  C1), and without any batch \<^verbatim>\<open>logs[0]\<close> raises. For every model, every sort and all
  loaders the step returns no metrics.
\<close>

theorem test_step_returns_no_metrics:
  "test_step model torch_argsort test_dataloader_head test_dataloader_tail =
     (if test_dataloader_head @ test_dataloader_tail = [] then Inl IndexError
      else Inl AttributeError)"
proof (cases "test_dataloader_head @ test_dataloader_tail")
  case Nil
  then show ?thesis
    by (simp add: test_step_def bind_r_def aggregate_def)
next
  case (Cons batch batches)
  obtain positive_sample negative_sample filter_bias mode
    where b: "batch = (positive_sample, negative_sample, filter_bias, mode)"
    by (metis prod.collapse)
  have "test_step_batch model torch_argsort batch = Inl AttributeError"
    unfolding b
    by (simp add: test_step_batch_def test_step_score_def forward_def size_of_def bind_r_def)
  then have "mapM (test_step_batch model torch_argsort) (batch # batches) = Inl AttributeError"
    by (rule mapM_first_Inl)
  with Cons show ?thesis
    by (simp add: test_step_def bind_r_def)
qed

subsection \<open>Broadcasting of an expression over vectors\<close>

lemma ew1_Inl: "ew1 f xs ys = Inl e \<Longrightarrow> e = RuntimeError"
  by (auto simp: ew1_eq split: if_splits)

lemma ew1_fits_back: "ew1 f xs ys = Inr zs \<Longrightarrow> fits n zs \<Longrightarrow> fits n xs \<and> fits n ys"
  by (auto simp: ew1_eq fits_def split: if_splits)

lemma hd_single: "length xs = Suc 0 \<Longrightarrow> hd xs = xs ! 0"
  by (cases xs) auto

lemma ew1_fits:
  assumes "fits n xs" "fits n ys"
  shows "\<exists>zs. ew1 f xs ys = Inr zs
           \<and> length zs = (if length xs = n \<or> length ys = n then n else 1)
           \<and> (\<forall>k < length zs. zs ! k = f (xs ! (if length xs = n then k else 0))
                                          (ys ! (if length ys = n then k else 0)))"
proof -
  consider (same) "length xs = length ys"
    | (left) "length xs \<noteq> length ys" "length xs = 1" "length ys = n"
    | (right) "length xs \<noteq> length ys" "length ys = 1" "length xs = n"
    using assms by (cases "length xs = length ys") (auto simp: fits_def)
  then show ?thesis
  proof cases
    case same
    then show ?thesis using assms by (auto simp: ew1_eq fits_def)
  next
    case left
    then show ?thesis by (simp add: ew1_eq hd_single)
  next
    case right
    then show ?thesis by (simp add: ew1_eq hd_single)
  qed
qed

lemma lift2_Inr_iff:
  "lift2 opr x y = Inr z \<longleftrightarrow> (\<exists>a b. x = Inr a \<and> y = Inr b \<and> opr a b = Inr z)"
  by (cases x; cases y) (simp_all add: lift2_def bind_r_def)

lemma lift2_Inl_cases:
  "lift2 opr x y = Inl e \<Longrightarrow>
     x = Inl e \<or> y = Inl e \<or> (\<exists>a b. x = Inr a \<and> y = Inr b \<and> opr a b = Inl e)"
  by (cases x; cases y) (simp_all add: lift2_def bind_r_def)

lemma eval_v_Inl: "eval_v e = Inl er \<Longrightarrow> er = RuntimeError"
proof (induction e)
  case (Leaf v)
  then show ?case by simp
next
  case (Node f a b)
  from Node.prems have "lift2 (ew1 f) (eval_v a) (eval_v b) = Inl er" by simp
  from lift2_Inl_cases[OF this] Node.IH show ?case
    using ew1_Inl by blast
qed

lemma eval_v_fits_back: "eval_v e = Inr z \<Longrightarrow> fits n z \<Longrightarrow> \<forall>v \<in> leaves e. fits n v"
proof (induction e arbitrary: z)
  case (Leaf v)
  then show ?case by simp
next
  case (Node f a b)
  from Node.prems(1) obtain za zb
    where a: "eval_v a = Inr za" and b: "eval_v b = Inr zb" and z: "ew1 f za zb = Inr z"
    unfolding eval_v.simps lift2_Inr_iff by blast
  from ew1_fits_back[OF z Node.prems(2)] have "fits n za" "fits n zb" by simp_all
  from Node.IH(1)[OF a this(1)] Node.IH(2)[OF b this(2)] show ?case
    unfolding leaves.simps by blast
qed

lemma at_v_const: "\<forall>v \<in> leaves e. length v \<noteq> n \<Longrightarrow> at_v n k e = at_v n 0 e"
  by (induction e) auto

lemma eval_v_fits:
  "\<forall>v \<in> leaves e. fits n v \<Longrightarrow>
   \<exists>z. eval_v e = Inr z \<and> length z = (if \<exists>v \<in> leaves e. length v = n then n else 1)
      \<and> (\<forall>k < length z. z ! k = at_v n k e)"
proof (induction e)
  case (Leaf v)
  then show ?case by (auto simp: fits_def)
next
  case (Node f a b)
  from Node obtain za where a: "eval_v a = Inr za"
      "length za = (if \<exists>v \<in> leaves a. length v = n then n else 1)"
      "\<forall>k < length za. za ! k = at_v n k a"
    by auto
  from Node obtain zb where b: "eval_v b = Inr zb"
      "length zb = (if \<exists>v \<in> leaves b. length v = n then n else 1)"
      "\<forall>k < length zb. zb ! k = at_v n k b"
    by auto
  have fa: "fits n za" "fits n zb"
    using a(2) b(2) by (auto simp: fits_def)
  from ew1_fits[OF fa, of f] obtain z where z: "ew1 f za zb = Inr z"
     "length z = (if length za = n \<or> length zb = n then n else 1)"
     "\<forall>k < length z. z ! k = f (za ! (if length za = n then k else 0))
                                (zb ! (if length zb = n then k else 0))"
    by blast
  have len: "length z = (if \<exists>v \<in> leaves (Node f a b). length v = n then n else 1)"
    using z(2) a(2) b(2) by auto
  have pt: "z ! k = at_v n k (Node f a b)" if k: "k < length z" for k
  proof -
    have "za ! (if length za = n then k else 0) = at_v n k a"
    proof (cases "length za = n")
      case True
      with k z(2) a(3) show ?thesis by auto
    next
      case False
      with a(2) have "\<forall>v \<in> leaves a. length v \<noteq> n" "length za = 1"
        by (auto split: if_splits)
      with a(3) at_v_const[of a n k] False show ?thesis by auto
    qed
    moreover have "zb ! (if length zb = n then k else 0) = at_v n k b"
    proof (cases "length zb = n")
      case True
      with k z(2) b(3) show ?thesis by auto
    next
      case False
      with b(2) have "\<forall>v \<in> leaves b. length v \<noteq> n" "length zb = 1"
        by (auto split: if_splits)
      with b(3) at_v_const[of b n k] False show ?thesis by auto
    qed
    ultimately show ?thesis using z(3) k by simp
  qed
  from a(1) b(1) z(1) have "eval_v (Node f a b) = Inr z"
    by (simp add: lift2_def bind_r_def)
  with len pt show ?case by blast
qed

text \<open>
  Two expressions with the same leaves and the same value at every position have the
  same result, an error included.
\<close>

lemma eval_v_cong:
  assumes lv: "leaves e1 = leaves e2" and pt: "\<And>n k. at_v n k e1 = at_v n k e2"
  shows "eval_v e1 = eval_v e2"
proof -
  have one: "eval_v e' = Inr z"
    if "eval_v e = Inr z" "leaves e = leaves e'" "\<And>n k. at_v n k e = at_v n k e'"
    for e e' z
  proof -
    have "fits (length z) z" by (simp add: fits_def)
    with that(1) have f: "\<forall>v \<in> leaves e. fits (length z) v"
      by (rule eval_v_fits_back)
    from eval_v_fits[OF f] that(1)
    have 1: "length z = (if \<exists>v \<in> leaves e. length v = length z then length z else 1)"
      and 2: "\<forall>k < length z. z ! k = at_v (length z) k e"
      by auto
    from f that(2) have f': "\<forall>v \<in> leaves e'. fits (length z) v" by simp
    from eval_v_fits[OF f'] obtain z' where z': "eval_v e' = Inr z'"
      "length z' = (if \<exists>v \<in> leaves e'. length v = length z then length z else 1)"
      "\<forall>k < length z'. z' ! k = at_v (length z) k e'"
      by blast
    have "length z' = length z" using z'(2) 1 that(2) by simp
    then have "z' = z" using z'(3) 2 that(3) by (intro nth_equalityI) auto
    with z'(1) show ?thesis by simp
  qed
  show ?thesis
  proof (cases "eval_v e1")
    case (Inr z)
    with one[OF Inr lv pt] show ?thesis by simp
  next
    case e1: (Inl er)
    then have er: "er = RuntimeError" by (rule eval_v_Inl)
    show ?thesis
    proof (cases "eval_v e2")
      case (Inr z)
      from one[OF Inr lv[symmetric] pt[symmetric]] e1 show ?thesis by simp
    next
      case (Inl er')
      then have "er' = RuntimeError" by (rule eval_v_Inl)
      with er Inl e1 show ?thesis by simp
    qed
  qed
qed

lemma bzip_single: "bzip f [x] [y] = (case f x y of Inl e \<Rightarrow> Inl e | Inr z \<Rightarrow> Inr [z])"
  by (simp add: bzip_def split: sum.splits)

lemma ew3_single: "ew3 f [[h]] [[r]] = wrap3 (ew1 f h r)"
  by (simp add: ew3_def ew2_def bzip_single wrap3_def split: sum.splits)

lemma lift2_wrap3: "lift2 (ew3 f) (wrap3 x) (wrap3 y) = wrap3 (lift2 (ew1 f) x y)"
  by (auto simp: lift2_def bind_r_def wrap3_def ew3_single split: sum.splits)

lemma Inr_wrap3: "Inr [[v]] = wrap3 (eval_v (Leaf v))"
  by (simp add: wrap3_def)

lemma chunk2_single:
  "chunk2 [[v]] =
     (if length v = 1 then Inl (ValueError ''not enough values to unpack (expected 2, got 1)'')
      else Inr ([[take ((length v + 1) div 2) v]], [[drop ((length v + 1) div 2) v]]))"
  by (simp add: chunk2_def size2_def Let_def)

subsection \<open>DistMult and ComplEx in the two modes\<close>

lemma DistMult_tree:
  "DistMult self [[h]] [[r]] [[t]] mode =
     bind_r (wrap3 (eval_v (if mode = ''head-batch''
         then Node (*) (Leaf h) (Node (*) (Leaf r) (Leaf t))
         else Node (*) (Node (*) (Leaf h) (Leaf r)) (Leaf t))))
       (\<lambda>score. Inr (sum_dim2 score))"
  unfolding DistMult_def
  by (simp only: Inr_wrap3 lift2_wrap3 eval_v.simps(2)[symmetric] if_distrib[of wrap3]
        if_distrib[of eval_v])

lemma DistMult_modes:
  "DistMult self [[h]] [[r]] [[t]] ''head-batch'' = DistMult self [[h]] [[r]] [[t]] ''tail-batch''"
proof -
  have "eval_v (Node (*) (Leaf h) (Node (*) (Leaf r) (Leaf t)))
      = eval_v (Node (*) (Node (*) (Leaf h) (Leaf r)) (Leaf t))"
    by (rule eval_v_cong) (auto simp: mult.assoc)
  then show ?thesis unfolding DistMult_tree by simp
qed

lemma ComplEx_modes:
  "ComplEx self [[h]] [[r]] [[t]] ''head-batch'' = ComplEx self [[h]] [[r]] [[t]] ''tail-batch''"
proof -
  have *: "eval_v (Node (+)
             (Node (*) (Leaf rh) (Node (+) (Node (*) (Leaf rr) (Leaf rt))
                                          (Node (*) (Leaf ir) (Leaf it))))
             (Node (*) (Leaf ih) (Node (-) (Node (*) (Leaf rr) (Leaf it))
                                          (Node (*) (Leaf ir) (Leaf rt)))))
      = eval_v (Node (+)
             (Node (*) (Node (-) (Node (*) (Leaf rh) (Leaf rr))
                                 (Node (*) (Leaf ih) (Leaf ir))) (Leaf rt))
             (Node (*) (Node (+) (Node (*) (Leaf rh) (Leaf ir))
                                 (Node (*) (Leaf ih) (Leaf rr))) (Leaf it)))"
    for rh ih rr ir rt it
    by (rule eval_v_cong) (auto simp: algebra_simps)
  show ?thesis
    unfolding ComplEx_def chunk2_single Let_def
    apply (simp del: eval_v.simps add: bind_r_def)
    apply (simp only: Inr_wrap3 lift2_wrap3 eval_v.simps(2)[symmetric] *)
    apply simp
    done
qed

text \<open>
  Claim C4. For every triple, with any head, relation and tail vectors, the DistMult
  score in the head-batch order \<open>head * (relation * tail)\<close> is the score in the tail-batch
  order \<open>(head * relation) * tail\<close>, and the ComplEx score assembled in the head-batch
  order is the one assembled in the tail-batch order. The equality is that of the
  results: where the widths do not fit, both orders raise the same error.
\<close>

theorem distmult_complex_same_score_in_both_modes:
  "DistMult self [[h]] [[r]] [[t]] ''head-batch'' = DistMult self [[h]] [[r]] [[t]] ''tail-batch''
   \<and> ComplEx self [[h]] [[r]] [[t]] ''head-batch'' = ComplEx self [[h]] [[r]] [[t]] ''tail-batch''"
  using DistMult_modes ComplEx_modes by blast

theorem distmult_complex_same_score_in_both_modes_witness:
  "DistMult example_rotate [[[1, 2]]] [[[3, 4]]] [[[5, 6]]] ''head-batch'' = Inr [[63]]
   \<and> DistMult example_rotate [[[1, 2]]] [[[3, 4]]] [[[5, 6]]] ''tail-batch'' = Inr [[63]]
   \<and> ComplEx example_rotate [[[1, 2]]] [[[3, 4]]] [[[5, 6]]] ''head-batch'' = Inr [[35]]
   \<and> ComplEx example_rotate [[[1, 2]]] [[[3, 4]]] [[[5, 6]]] ''tail-batch'' = Inr [[35]]"
proof -
  have "DistMult example_rotate [[[1, 2]]] [[[3, 4]]] [[[5, 6]]] ''tail-batch'' = Inr [[63]]"
    by (simp add: DistMult_def lift2_def bind_r_def ew3_def ew2_def ew1_def bzip_def
          sum_dim2_def)
  moreover
  have "ComplEx example_rotate [[[1, 2]]] [[[3, 4]]] [[[5, 6]]] ''tail-batch'' = Inr [[35]]"
    by (simp add: ComplEx_def chunk2_def size2_def Let_def lift2_def bind_r_def ew3_def ew2_def
          ew1_def bzip_def sum_dim2_def)
  ultimately show ?thesis
    using distmult_complex_same_score_in_both_modes[of example_rotate "[1, 2]" "[3, 4]" "[5, 6]"]
    by simp
qed

subsection \<open>RotatE and a shift of the phase\<close>












subsection \<open>The regulariser\<close>

lemma norm_p3_nonneg: "0 \<le> norm_p3 xs"
  unfolding norm_p3_def by (auto intro!: sum_list_nonneg)

text \<open>
  Claim C10. For every relation table, the nested norm of the regulariser,
  \<^verbatim>\<open>relation_embedding.norm(p = 3).norm(p = 3)**3\<close>, is the single norm
  \<^verbatim>\<open>relation_embedding.norm(p = 3)**3\<close>: the 3-norm of the one non-negative number that
  the first norm returns is that number. The regulariser therefore has the same form
  for the relation table as for the entity table.
\<close>

theorem nested_norm_is_single_norm:
  "norm_p3 [norm_p3 xs] = norm_p3 xs
   \<and> norm_p3 [norm_p3 (concat (relation_embedding model))] ^ 3
       = norm_p3 (concat (relation_embedding model)) ^ 3
   \<and> l3_regularization model
       = norm_p3 (concat (entity_embedding model)) ^ 3
         + norm_p3 (concat (relation_embedding model)) ^ 3"
proof -
  have "norm_p3 [norm_p3 ys] = norm_p3 ys" for ys
    using norm_p3_nonneg[of ys] by (simp add: norm_p3_def[of "[_]"] real_root_power_cancel)
  then show ?thesis
    by (simp add: l3_regularization_def)
qed

subsection \<open>The losses of a training step\<close>

lemma logsigmoid_0: "logsigmoid 0 = - ln 2"
  by (simp add: logsigmoid_def ln_div)

lemma example_forward_negative:
  "forward example_ta (PLong [[0, 0, 1]]) (PLong [[3, 7]]) (PLong [[1, 0]]) ''tail-batch''
     = Inr [[0, 0]]"
  by (simp add: forward_def example_ta_def size_of_def subscript_of_def column_def
        index_select_def select_tem_def select_candidates_def unsqueeze1_def bind_r_def
        TADistMult_def get_rseq_def cat1_def size2_def example_lstm_def lift2_def
        ew3_def ew2_def ew1_def bzip_def sum_dim2_def Let_def)

lemma example_forward_positive:
  "forward example_ta (PLong [[0, 0, 1]]) (PLong [[3, 7]]) PNone ''single'' = Inr [[0]]"
  by (simp add: forward_def example_ta_def size_of_def subscript_of_def column_def
        index_select_def select_tem_def unsqueeze1_def bind_r_def
        TADistMult_def get_rseq_def cat1_def size2_def example_lstm_def lift2_def
        ew3_def ew2_def ew1_def bzip_def sum_dim2_def Let_def)

lemma example_losses:
  "train_losses (example_args True reg) [1] [[0, 0]] [[0]] = Inr (- ln 2, - ln 2)"
  "train_losses (example_args False reg) [1] [[0, 0]] [[0]] = Inr (ln 2, ln 2)"
  by (simp_all add: train_losses_def example_args_def negative_reduce_def mean_def
        squeeze_dim1_def mean_all_def weighted_sum_def ew1_def bzip_def bind_r_def
        logsigmoid_0 Let_def)

text \<open>
  Claim C3 says that the two configurations of \<^verbatim>\<open>uni_weight\<close> average one and the same
  loss of an example, with the same sign. The code does not: the weighted branch negates
  the weighted mean of the log-sigmoid values, the \<^verbatim>\<open>uni_weight\<close> branch returns their
  mean as it is. For the example model and batch, with the single weight 1 (where a
  weighted mean is the plain mean), the step returns the loss \<open>ln 2\<close> without
  \<^verbatim>\<open>uni_weight\<close> and \<open>- ln 2\<close> with it.
\<close>

theorem uni_weight_loss_has_opposite_sign:
  "train_step example_ta (example_args True 0) example_train_batch
     = Inr \<lparr> regularization_log = None, positive_sample_loss = - ln 2,
             negative_sample_loss = - ln 2, loss = - ln 2 \<rparr>
   \<and> train_step example_ta (example_args False 0) example_train_batch
     = Inr \<lparr> regularization_log = None, positive_sample_loss = ln 2,
             negative_sample_loss = ln 2, loss = ln 2 \<rparr>"
proof -
  have r: "regularization (example_args u 0) = 0" for u
    by (simp add: example_args_def)
  show ?thesis
    unfolding train_step_def example_train_batch_def
    by (simp add: example_forward_negative example_forward_positive example_losses r bind_r_def)
qed

lemma cube_root_of_cubed_norm:
  assumes "0 \<le> s"
  shows "root 3 (\<bar>root 3 s\<bar> ^ 3) ^ 3 = s"
proof -
  have "0 \<le> root 3 s" using assms by simp
  then have "\<bar>root 3 s\<bar> = root 3 s" by simp
  then show ?thesis by (simp add: odd_real_root_pow)
qed

text \<open>
  Claim C6. When the two forward calls and the reduction of the scores give the sample
  losses \<open>positive_loss\<close> and \<open>negative_loss\<close>, the training step returns their half
  sum, to which a non-zero regularization coefficient adds exactly the coefficient times
  the cubed 3-norm of the entity table plus the cubed 3-norm of the 3-norm of the
  relation table, and a zero coefficient adds nothing. The sample losses are computed
  from the scores and the weights alone, so with the coefficient 0 the loss depends on
  the tables only through the scores.
\<close>

theorem regularization_term_of_the_loss:
  assumes "forward model (PLong positive_sample_triple) (PLong positive_sample_tem)
             (PLong negative_sample) mode = Inr negative_score"
    and "forward model (PLong positive_sample_triple) (PLong positive_sample_tem)
             PNone ''single'' = Inr positive_score"
    and "train_losses args subsampling_weight negative_score positive_score
           = Inr (positive_loss, negative_loss)"
  shows "train_step model args
           (positive_sample_triple, positive_sample_tem, negative_sample, subsampling_weight, mode)
         = Inr \<lparr> regularization_log =
                   (if regularization args \<noteq> 0
                    then Some (regularization args *
                      (root 3 (\<Sum>x\<leftarrow>concat (entity_embedding model). \<bar>x\<bar> ^ 3) ^ 3
                       + root 3 (\<bar>root 3 (\<Sum>x\<leftarrow>concat (relation_embedding model). \<bar>x\<bar> ^ 3)\<bar> ^ 3) ^ 3))
                    else None),
                 positive_sample_loss = positive_loss,
                 negative_sample_loss = negative_loss,
                 loss = (positive_loss + negative_loss) / 2
                   + (if regularization args \<noteq> 0
                      then regularization args *
                        (root 3 (\<Sum>x\<leftarrow>concat (entity_embedding model). \<bar>x\<bar> ^ 3) ^ 3
                         + root 3 (\<bar>root 3 (\<Sum>x\<leftarrow>concat (relation_embedding model). \<bar>x\<bar> ^ 3)\<bar> ^ 3) ^ 3)
                      else 0) \<rparr>"
  unfolding train_step_def
  by (simp add: assms bind_r_def l3_regularization_def norm_p3_def Let_def)

theorem regularization_term_of_the_loss_witness:
  "train_step example_ta (example_args False (1 / 2)) example_train_batch
     = Inr \<lparr> regularization_log = Some (9 / 2), positive_sample_loss = ln 2,
             negative_sample_loss = ln 2, loss = ln 2 + 9 / 2 \<rparr>"
proof -
  have r: "regularization (example_args False (1 / 2)) = 1 / 2"
    by (simp add: example_args_def)
  have e: "root 3 (\<Sum>x\<leftarrow>concat (entity_embedding example_ta). \<bar>x\<bar> ^ 3) ^ 3 = 1"
    by (simp add: example_ta_def odd_real_root_pow)
  have "root 3 (\<bar>root 3 (\<Sum>x\<leftarrow>concat (relation_embedding example_ta). \<bar>x\<bar> ^ 3)\<bar> ^ 3) ^ 3
          = (\<Sum>x\<leftarrow>concat (relation_embedding example_ta). \<bar>x\<bar> ^ 3)"
    by (rule cube_root_of_cubed_norm) (simp add: example_ta_def)
  then have q: "root 3 (\<bar>root 3 (\<Sum>x\<leftarrow>concat (relation_embedding example_ta). \<bar>x\<bar> ^ 3)\<bar> ^ 3) ^ 3
          = 8"
    by (simp add: example_ta_def)
  show ?thesis
    using regularization_term_of_the_loss[OF example_forward_negative example_forward_positive
        example_losses(2)[of "1 / 2"]]
    unfolding example_train_batch_def r e q by simp
qed

subsection \<open>The reduction of the negative scores\<close>

lemma fst_d_sum: "fst (d_sum xs) = sum_list (map fst xs)"
  by (induction xs) (auto simp: d_sum_def d_add_def d_const_def)

lemma snd_d_sum: "snd (d_sum xs) = sum_list (map snd xs)"
  by (induction xs) (auto simp: d_sum_def d_add_def d_const_def)

lemma fst_d_logsigmoid: "fst (d_logsigmoid (d_neg x)) = logsigmoid (- fst x)"
  by (simp add: d_logsigmoid_def d_ln_def d_div_def d_const_def d_add_def d_exp_def d_neg_def
        logsigmoid_def)

lemma snd_d_logsigmoid: "snd (d_logsigmoid (d_neg x)) = - snd x / (1 + exp (- fst x))"
proof -
  have p: "1 + exp (fst x) > 0"
    by (simp add: add_pos_pos)
  show ?thesis
    using p
    apply (simp add: d_logsigmoid_def d_ln_def d_div_def d_const_def d_add_def d_exp_def
             d_neg_def power2_eq_square)
    apply (simp add: field_simps exp_minus)
    done
qed

lemma sum_list_map2_nth:
  "length xs = length ys \<Longrightarrow> sum_list (map2 f xs ys) = (\<Sum>j<length xs. f (xs ! j) (ys ! j))"
  by (simp add: sum_list_sum_nth atLeast0LessThan)

lemma sum_list_map_nth: "sum_list (map f xs) = (\<Sum>j<length xs. f (xs ! j))"
  by (simp add: sum_list_sum_nth atLeast0LessThan)

lemma negative_reduce_values:
  "negative_reduce args (map (map fst) negative_score) =
     map (\<lambda>row. if negative_adversarial_sampling args
           then (\<Sum>j<length row. exp (fst (row ! j) * adversarial_temperature args)
                      / (\<Sum>k<length row. exp (fst (row ! k) * adversarial_temperature args))
                    * logsigmoid (- fst (row ! j)))
           else (\<Sum>j<length row. logsigmoid (- fst (row ! j))) / real (length row))
       negative_score"
  unfolding negative_reduce_def
  by (simp add: sum_list_map2_nth sum_list_map_nth softmax_def detach_def mean_def comp_def)

lemma negative_reduce_grad_values:
  "map fst (negative_reduce_grad args negative_score)
     = negative_reduce args (map (map fst) negative_score)"
  unfolding negative_reduce_grad_def negative_reduce_def
  by (simp add: fst_d_sum comp_def d_mean_def d_div_def d_const_def mean_def fst_d_logsigmoid
        detach_def softmax_def d_softmax_def d_detach_def d_mul_def d_exp_def zip_map_map
        zip_map1 zip_map2 zip_same_conv_map case_prod_unfold)

lemma negative_reduce_grad_tangents:
  "map snd (negative_reduce_grad args negative_score) =
     map (\<lambda>row. if negative_adversarial_sampling args
           then (\<Sum>j<length row. exp (fst (row ! j) * adversarial_temperature args)
                      / (\<Sum>k<length row. exp (fst (row ! k) * adversarial_temperature args))
                    * (- snd (row ! j) / (1 + exp (- fst (row ! j)))))
           else (\<Sum>j<length row. - snd (row ! j) / (1 + exp (- fst (row ! j))))
                  / real (length row))
       negative_score"
  unfolding negative_reduce_grad_def
  by (simp add: snd_d_sum fst_d_sum comp_def d_mean_def d_div_def d_const_def fst_d_logsigmoid
        snd_d_logsigmoid d_softmax_def d_detach_def d_mul_def d_exp_def zip_map_map zip_map1
        zip_map2 zip_same_conv_map case_prod_unfold sum_list_map_nth power2_eq_square)

text \<open>
  Claim C7. For every matrix of negative scores with at least one candidate in each
  row, each score given with its derivative along a parameter of the model: with
  \<^verbatim>\<open>negative_adversarial_sampling\<close> the reduction of a row is the sum over the candidates
  of the softmax of score times temperature, times the log-sigmoid of minus the score,
  and the weights are constants for the derivative, which is the sum of the weights
  times the derivatives of the log-sigmoid terms; without it the reduction is the mean
  of the log-sigmoid of minus the score, and its derivative the mean of the derivatives.
\<close>

theorem negative_reduction_by_policy:
  assumes "list_all (\<lambda>row. row \<noteq> []) negative_score"
  shows "negative_reduce args (map (map fst) negative_score) =
           map (\<lambda>row. if negative_adversarial_sampling args
                 then (\<Sum>j<length row. exp (fst (row ! j) * adversarial_temperature args)
                            / (\<Sum>k<length row. exp (fst (row ! k) * adversarial_temperature args))
                          * logsigmoid (- fst (row ! j)))
                 else (\<Sum>j<length row. logsigmoid (- fst (row ! j))) / real (length row))
             negative_score
       \<and> map fst (negative_reduce_grad args negative_score)
           = negative_reduce args (map (map fst) negative_score)
       \<and> map snd (negative_reduce_grad args negative_score) =
           map (\<lambda>row. if negative_adversarial_sampling args
                 then (\<Sum>j<length row. exp (fst (row ! j) * adversarial_temperature args)
                            / (\<Sum>k<length row. exp (fst (row ! k) * adversarial_temperature args))
                          * (- snd (row ! j) / (1 + exp (- fst (row ! j)))))
                 else (\<Sum>j<length row. - snd (row ! j) / (1 + exp (- fst (row ! j))))
                        / real (length row))
             negative_score"
  using negative_reduce_values negative_reduce_grad_values negative_reduce_grad_tangents
  by blast

theorem negative_reduction_by_policy_witness:
  "list_all (\<lambda>row. row \<noteq> []) [[(0, 1), (0, 3 :: real)]]
   \<and> negative_reduce_grad \<lparr> negative_adversarial_sampling = True, adversarial_temperature = 1,
                             uni_weight = False, regularization = 0 \<rparr> [[(0, 1), (0, 3)]]
       = [(- ln 2, - 1)]"
proof -
  let ?args = "\<lparr> negative_adversarial_sampling = True, adversarial_temperature = 1,
                  uni_weight = False, regularization = 0 \<rparr>"
  have h: "list_all (\<lambda>row. row \<noteq> []) [[(0, 1), (0, 3 :: real)]]" by simp
  have "map fst (negative_reduce_grad ?args [[(0, 1), (0, 3)]]) = [- ln 2]"
    and "map snd (negative_reduce_grad ?args [[(0, 1), (0, 3)]]) = [- 1]"
    using negative_reduction_by_policy[OF h, of ?args]
    by (simp_all add: lessThan_Suc numeral_2_eq_2 logsigmoid_0)
  then have "negative_reduce_grad ?args [[(0, 1), (0, 3)]] = [(- ln 2, - 1)]"
    by (cases "negative_reduce_grad ?args [[(0, 1), (0, 3)]]") (auto simp: prod_eq_iff)
  with h show ?thesis by simp
qed


end
